theory Spec2Isabelle
  imports Main
begin

section \<open>JavaScript values\<close>

text \<open>
  The data that flows through \<^verbatim>\<open>src/index.js\<close>: prefixes, keys, URLs, options, decoded
  bodies, errors and the action objects handed to \<^verbatim>\<open>dispatch\<close>. A number is named by
  its string form (\<^verbatim>\<open>42\<close>, \<^verbatim>\<open>0.5\<close>, \<^verbatim>\<open>1e+21\<close>, \<^verbatim>\<open>NaN\<close>), a symbol by its description, an
  error object by its name and message. An \<open>Object\<close> is an ordinary object given by the
  list of its own properties, all of them data; where a name is listed twice the later
  entry counts, as in an object literal.
\<close>

datatype jsval =
    Undefined
  | Null
  | Boolean bool
  | Number string
  | String string
  | Symbol string
  | Array "jsval list"
  | Object "(string \<times> jsval) list"
  | Error string string

definition own_property :: "(string \<times> 'v) list \<Rightarrow> string \<Rightarrow> 'v option" where
  "own_property kvs name = map_of (rev kvs) name"

definition TypeError :: "string \<Rightarrow> jsval" where
  "TypeError msg = Error ''TypeError'' msg"

fun typeof :: "jsval \<Rightarrow> string" where
  "typeof Undefined = ''undefined''"
| "typeof Null = ''object''"
| "typeof (Boolean b) = ''boolean''"
| "typeof (Number n) = ''number''"
| "typeof (String s) = ''string''"
| "typeof (Symbol d) = ''symbol''"
| "typeof (Array xs) = ''object''"
| "typeof (Object kvs) = ''object''"
| "typeof (Error n m) = ''object''"

subsection \<open>String conversion, as the operator \<^verbatim>\<open>+\<close> with a string operand performs it\<close>

text \<open>
  A symbol cannot be converted. An object is converted by its \<^verbatim>\<open>toString\<close> method: the
  inherited one gives \<^verbatim>\<open>[object Object]\<close>, but an own property of that name hides it and,
  being data, cannot be called, and \<^verbatim>\<open>valueOf\<close> gives no primitive either: a TypeError.
  An array joins the conversions of its elements, \<^verbatim>\<open>undefined\<close> and \<^verbatim>\<open>null\<close> counting as
  empty.
\<close>

fun ToString :: "jsval \<Rightarrow> jsval + string"
  and join :: "jsval list \<Rightarrow> jsval + string"
  and element :: "jsval \<Rightarrow> jsval + string"
where
  "ToString Undefined = Inr ''undefined''"
| "ToString Null = Inr ''null''"
| "ToString (Boolean b) = Inr (if b then ''true'' else ''false'')"
| "ToString (Number n) = Inr n"
| "ToString (String s) = Inr s"
| "ToString (Symbol d) = Inl (TypeError ''Cannot convert a Symbol value to a string'')"
| "ToString (Array xs) = join xs"
| "ToString (Object kvs) =
     (case own_property kvs ''toString'' of
        None \<Rightarrow> Inr ''[object Object]''
      | Some v \<Rightarrow> Inl (TypeError ''Cannot convert object to primitive value''))"
| "ToString (Error n m) = Inr (if m = [] then n else if n = [] then m else n @ '': '' @ m)"
| "join [] = Inr []"
| "join [x] = element x"
| "join (x # y # ys) =
     (case element x of
        Inl e \<Rightarrow> Inl e
      | Inr s \<Rightarrow> (case join (y # ys) of Inl e \<Rightarrow> Inl e | Inr t \<Rightarrow> Inr (s @ '','' @ t)))"
| "element Undefined = Inr []"
| "element Null = Inr []"
| "element (Boolean b) = ToString (Boolean b)"
| "element (Number n) = ToString (Number n)"
| "element (String s) = ToString (String s)"
| "element (Symbol d) = ToString (Symbol d)"
| "element (Array xs) = ToString (Array xs)"
| "element (Object kvs) = ToString (Object kvs)"
| "element (Error n m) = ToString (Error n m)"

text \<open>\<^verbatim>\<open>v + 'literal'\<close> and \<^verbatim>\<open>'literal' + v\<close>: the other operand is converted to a string.\<close>

definition concat_right :: "jsval \<Rightarrow> string \<Rightarrow> jsval + string" where
  "concat_right v s = (case ToString v of Inl e \<Rightarrow> Inl e | Inr t \<Rightarrow> Inr (t @ s))"

definition concat_left :: "string \<Rightarrow> jsval \<Rightarrow> jsval + string" where
  "concat_left s v = (case ToString v of Inl e \<Rightarrow> Inl e | Inr t \<Rightarrow> Inr (s @ t))"

section \<open>Effects\<close>

text \<open>
  What an invocation does is a trace of events, in the order they happen: every call it
  makes to a function it was given (\<^verbatim>\<open>paramsFunc\<close>, \<^verbatim>\<open>dispatch\<close>, the functions of the
  configuration), to \<^verbatim>\<open>fetch\<close>, to a body method of the response and to
  \<^verbatim>\<open>console.error\<close>, with the arguments of the call, and the settling of the promise it
  returned. A \<open>Dispatch\<close> is a call of \<^verbatim>\<open>dispatch\<close> by the code of \<^verbatim>\<open>src/index.js\<close>, whoever
  called that code: the invocation itself, or a function of the caller's that calls the
  capability of lines 24 to 26 while it runs. \<open>CallFetchOptionsFunc\<close> and \<open>CallParseResponse\<close>
  are the calls of lines 51 and 58, whether the binding called holds a function of the
  caller or the default of lines 30 and 32, which does nothing but return.
\<close>

datatype body_method = ArrayBuffer | Blob | FormData | Json | Text

datatype 'a settled = Pending | Rejected jsval | Fulfilled 'a

datatype event =
    CallParamsFunc
  | ConsoleError string
  | Dispatch jsval
  | CallFetchURLFunc jsval
  | CallFetchOptionsFunc jsval
  | CallFetch jsval jsval
  | CallBodyMethod body_method
  | CallDeferredSuccess jsval
  | CallParseResponse jsval
  | Settle "jsval settled"

text \<open>
  A piece of code run to its end: the events it caused and how it completed, by a throw
  (\<open>Inl\<close>, the thrown value) or normally (\<open>Inr\<close>, the value of the expression).
\<close>

type_synonym 'a run = "event list \<times> (jsval + 'a)"

definition ret :: "'a \<Rightarrow> 'a run" where
  "ret x = ([], Inr x)"

definition lift :: "jsval + 'a \<Rightarrow> 'a run" where
  "lift c = ([], c)"

definition call :: "event \<Rightarrow> jsval + 'a \<Rightarrow> 'a run" where
  "call ev c = ([ev], c)"

definition seq :: "'a run \<Rightarrow> ('a \<Rightarrow> 'b run) \<Rightarrow> 'b run" where
  "seq m f =
     (case m of
        (es, Inl e) \<Rightarrow> (es, Inl e)
      | (es, Inr x) \<Rightarrow> (case f x of (es', c) \<Rightarrow> (es @ es', c)))"

subsection \<open>Functions of the caller\<close>

text \<open>
  The capability of lines 24 to 26 takes a result and runs code of \<^verbatim>\<open>src/index.js\<close>.
  A function of the caller's (\<^verbatim>\<open>paramsFunc\<close>, which receives the capability, and the
  functions of the configuration it returns, which may have kept it) is given by what one
  call of it does: it completes, by a throw or with a value, or it first calls the
  capability with some result and goes on according to how that call completed.
\<close>

type_synonym capability = "jsval \<Rightarrow> jsval run"

datatype 'b behaviour =
    Done "jsval + 'b"
  | CallCapability jsval "jsval + jsval \<Rightarrow> 'b behaviour"

primrec perform :: "capability \<Rightarrow> 'b behaviour \<Rightarrow> 'b run" where
  "perform cap (Done c) = ([], c)"
| "perform cap (CallCapability result continue) =
     (case cap result of
        (es, c) \<Rightarrow> (case perform cap (continue c) of (es', c') \<Rightarrow> (es @ es', c')))"

text \<open>A value that the code may call: plain data (calling it is a TypeError) or a function.\<close>

datatype ('a, 'b) callable = Val jsval | Fn "'a \<Rightarrow> 'b behaviour"

fun typeof_callable :: "('a, 'b) callable \<Rightarrow> string" where
  "typeof_callable (Val v) = typeof v"
| "typeof_callable (Fn f) = ''function''"

text \<open>Calling a value \<open>f\<close> named \<open>name\<close> in the source, while \<open>cap\<close> is the capability.\<close>

definition invoke ::
  "string \<Rightarrow> event \<Rightarrow> capability \<Rightarrow> ('a, 'b) callable \<Rightarrow> 'a \<Rightarrow> 'b run" where
  "invoke name ev cap f x =
     (case f of
        Val v \<Rightarrow> lift (Inl (TypeError (name @ '' is not a function'')))
      | Fn g \<Rightarrow> seq (call ev (Inr ())) (\<lambda>_. perform cap (g x)))"

subsection \<open>Promises\<close>

text \<open>
  A promise is modelled by the state it ends in. A handler given to \<^verbatim>\<open>then\<close> completes
  with a plain value or with another promise, whose state the derived promise takes over;
  a handler that throws rejects the derived promise.
\<close>

datatype outcome = Value jsval | Promise "jsval settled"

definition settle :: "outcome run \<Rightarrow> event list \<times> jsval settled" where
  "settle r =
     (case r of
        (es, Inl e) \<Rightarrow> (es, Rejected e)
      | (es, Inr (Value v)) \<Rightarrow> (es, Fulfilled v)
      | (es, Inr (Promise s)) \<Rightarrow> (es, s))"

definition then_promise ::
  "'a settled \<Rightarrow> ('a \<Rightarrow> outcome run) \<Rightarrow> (jsval \<Rightarrow> outcome run) \<Rightarrow> event list \<times> jsval settled" where
  "then_promise p onFulfilled onRejected =
     (case p of
        Pending \<Rightarrow> ([], Pending)
      | Fulfilled x \<Rightarrow> settle (onFulfilled x)
      | Rejected e \<Rightarrow> settle (onRejected e))"

definition promise :: "event list \<times> jsval settled \<Rightarrow> outcome run" where
  "promise q = (case q of (es, s) \<Rightarrow> (es, Inr (Promise s)))"

text \<open>
  The promise that the invocation returns: it is settled after the handlers have run, and
  never if it stays pending.
\<close>

fun settlement :: "jsval settled \<Rightarrow> event list" where
  "settlement Pending = []"
| "settlement s = [Settle s]"

definition returned :: "event list \<times> jsval settled \<Rightarrow> outcome run" where
  "returned q = (case q of (es, s) \<Rightarrow> (es @ settlement s, Inr (Promise s)))"

subsection \<open>The response of the transport\<close>

text \<open>
  Modelled from the spec: the response object is the platform's, not the repository's.
  By section 6 of the specification a response offers five body-decoding primitives
  (the README names them \<^verbatim>\<open>arrayBuffer\<close>, \<^verbatim>\<open>blob\<close>, \<^verbatim>\<open>formData\<close>, \<^verbatim>\<open>json\<close>, \<^verbatim>\<open>text\<close>), each
  returning a promise of the decoded body. A response is the state each of these
  promises ends in; no other property of it is a function returning a promise.
\<close>

type_synonym response = "body_method \<Rightarrow> jsval settled"

definition method_named :: "string \<Rightarrow> body_method option" where
  "method_named name =
     (if name = ''arrayBuffer'' then Some ArrayBuffer
      else if name = ''blob'' then Some Blob
      else if name = ''formData'' then Some FormData
      else if name = ''json'' then Some Json
      else if name = ''text'' then Some Text
      else None)"

text \<open>\<^verbatim>\<open>response[responseType]()\<close>: the property key is the string form of \<open>responseType\<close>
  (a symbol is a key of its own, a function converts to its source text; neither names a
  body method).\<close>

definition call_body_method ::
  "response \<Rightarrow> (jsval, jsval) callable \<Rightarrow> (jsval settled) run" where
  "call_body_method response responseType =
     (case responseType of
        Fn g \<Rightarrow> lift (Inl (TypeError ''response[responseType] is not a function''))
      | Val (Symbol d) \<Rightarrow> lift (Inl (TypeError ''response[responseType] is not a function''))
      | Val v \<Rightarrow>
          seq (lift (ToString v)) (\<lambda>name.
            case method_named name of
              None \<Rightarrow> lift (Inl (TypeError ''response[responseType] is not a function''))
            | Some m \<Rightarrow> call (CallBodyMethod m) (Inr (response m))))"

section \<open>The configuration\<close>

text \<open>
  What \<^verbatim>\<open>paramsFunc\<close> returns: an object whose properties may be functions, or any other
  value. Reading a property that is absent gives \<^verbatim>\<open>undefined\<close>.
\<close>

datatype params = Plain jsval | Dict "(string \<times> (jsval, jsval) callable) list"

fun get_prop :: "params \<Rightarrow> string \<Rightarrow> (jsval, jsval) callable" where
  "get_prop (Dict d) name = (case own_property d name of None \<Rightarrow> Val Undefined | Some v \<Rightarrow> v)"
| "get_prop (Plain (Object kvs)) name =
     (case own_property kvs name of None \<Rightarrow> Val Undefined | Some v \<Rightarrow> Val v)"
| "get_prop (Plain v) name = Val Undefined"

text \<open>The five constants bound by the destructuring pattern of lines 28 to 34.\<close>

record bindings =
  fetchURLFunc :: "(jsval, jsval) callable"
  fetchOptionsFunc :: "(jsval, jsval) callable"
  responseType :: "(jsval, jsval) callable"
  parseResponse :: "(jsval, jsval) callable"
  deferredSuccess :: "(jsval, jsval) callable"

text \<open>A default initialiser of the pattern is used when the property reads \<^verbatim>\<open>undefined\<close>.\<close>

fun default_to :: "(jsval, jsval) callable \<Rightarrow> (jsval, jsval) callable \<Rightarrow> (jsval, jsval) callable" where
  "default_to (Val Undefined) d = d"
| "default_to v d = v"

definition destructure :: "params \<Rightarrow> jsval + bindings" where
  "destructure p =
     (case p of
        Plain Undefined \<Rightarrow> Inl (TypeError ''Cannot destructure undefined'')
      | Plain Null \<Rightarrow> Inl (TypeError ''Cannot destructure null'')
      | _ \<Rightarrow> Inr \<lparr>
          fetchURLFunc = get_prop p ''fetchURLFunc'',
          fetchOptionsFunc = default_to (get_prop p ''fetchOptionsFunc'')
                               (Fn (\<lambda>key. Done (Inr (Object [(''method'', String ''GET'')])))),
          responseType = default_to (get_prop p ''responseType'') (Val (String ''json'')),
          parseResponse = default_to (get_prop p ''parseResponse'') (Fn (\<lambda>value. Done (Inr value))),
          deferredSuccess = default_to (get_prop p ''deferredSuccess'') (Val Undefined) \<rparr>)"

section \<open>Fetcher\<close>

text \<open>The three action creators, lines 3 to 18. They close over \<open>actionPrefix\<close>.\<close>

definition requestAction :: "jsval \<Rightarrow> jsval \<Rightarrow> jsval + jsval" where
  "requestAction actionPrefix key =
     (case concat_right actionPrefix ''_REQUEST'' of
        Inl e \<Rightarrow> Inl e
      | Inr t \<Rightarrow> Inr (Object [(''type'', String t), (''key'', key)]))"

definition successAction :: "jsval \<Rightarrow> jsval \<Rightarrow> jsval \<Rightarrow> jsval + jsval" where
  "successAction actionPrefix key result =
     (case concat_right actionPrefix ''_SUCCESS'' of
        Inl e \<Rightarrow> Inl e
      | Inr t \<Rightarrow> Inr (Object [(''type'', String t), (''key'', key), (''result'', result)]))"

definition failureAction :: "jsval \<Rightarrow> jsval \<Rightarrow> jsval \<Rightarrow> jsval + jsval" where
  "failureAction actionPrefix key error =
     (case concat_right actionPrefix ''_FAILURE'' of
        Inl e \<Rightarrow> Inl e
      | Inr t \<Rightarrow> Inr (Object [(''type'', String t), (''key'', key), (''error'', error)]))"

text \<open>Lines 24 to 26: the capability handed to \<^verbatim>\<open>paramsFunc\<close>. It returns nothing.\<close>

definition dispatchSuccessAction ::
  "jsval \<Rightarrow> jsval \<Rightarrow> (jsval \<Rightarrow> jsval + jsval) \<Rightarrow> capability" where
  "dispatchSuccessAction actionPrefix key dispatch result =
     seq (lift (successAction actionPrefix key result)) (\<lambda>a.
     seq (call (Dispatch a) (dispatch a)) (\<lambda>_.
     ret Undefined))"

text \<open>Lines 38 to 45: the message written to \<^verbatim>\<open>console.error\<close>.\<close>

definition error_message :: "jsval \<Rightarrow> (jsval, jsval) callable \<Rightarrow> jsval + string" where
  "error_message actionPrefix f =
     (case concat_left
        (''Fetcher requires string `actionPrefix` '' @
         '' and function `fetchURLFunc` to be '' @
         ''specified in paramsFunc; got '') actionPrefix of
        Inl e \<Rightarrow> Inl e
      | Inr s \<Rightarrow> Inr (s @ '' (type '' @ typeof actionPrefix @ '') and (type '' @
                       typeof_callable f @ ''), respectively''))"

text \<open>Lines 53 to 59: the handler of a decoded body.\<close>

definition onValue ::
  "jsval \<Rightarrow> jsval \<Rightarrow> (jsval \<Rightarrow> jsval + jsval) \<Rightarrow> bindings \<Rightarrow> jsval \<Rightarrow> outcome run" where
  "onValue actionPrefix key dispatch b v =
     (if typeof_callable (deferredSuccess b) \<noteq> ''undefined'' then
        seq (invoke ''deferredSuccess'' (CallDeferredSuccess v)
               (dispatchSuccessAction actionPrefix key dispatch) (deferredSuccess b) v) (\<lambda>_.
        ret (Value Undefined))
      else
        seq (invoke ''parseResponse'' (CallParseResponse v)
               (dispatchSuccessAction actionPrefix key dispatch) (parseResponse b) v) (\<lambda>r.
        seq (dispatchSuccessAction actionPrefix key dispatch r) (\<lambda>_.
        ret (Value Undefined))))"

text \<open>Lines 60 and 62: the handler of a rejection, of the body or of the fetch.\<close>

definition onError ::
  "jsval \<Rightarrow> jsval \<Rightarrow> (jsval \<Rightarrow> jsval + jsval) \<Rightarrow> jsval \<Rightarrow> outcome run" where
  "onError actionPrefix key dispatch error =
     seq (lift (failureAction actionPrefix key error)) (\<lambda>a.
     seq (call (Dispatch a) (dispatch a)) (\<lambda>r.
     ret (Value r)))"

text \<open>Lines 52 to 61: the handler of the response.\<close>

definition onResponse ::
  "jsval \<Rightarrow> jsval \<Rightarrow> (jsval \<Rightarrow> jsval + jsval) \<Rightarrow> bindings \<Rightarrow> response \<Rightarrow> outcome run" where
  "onResponse actionPrefix key dispatch b response =
     seq (call_body_method response (responseType b)) (\<lambda>body.
     promise (then_promise body
       (onValue actionPrefix key dispatch b)
       (onError actionPrefix key dispatch)))"

text \<open>
  Lines 21 to 65: \<^verbatim>\<open>Fetcher(actionPrefix, paramsFunc)(key)(dispatch)\<close>, run until nothing
  is left to run, with the global \<^verbatim>\<open>fetch\<close> as first argument: \<open>fetch url options\<close> is the
  state the promise of the transport ends in. The argument of \<^verbatim>\<open>paramsFunc\<close> is the
  capability, so the model calls it with nothing and runs what it does against the
  capability. The result is the trace and what the call returned (or threw): \<^verbatim>\<open>undefined\<close>,
  or a promise with the state it ends in.
\<close>

definition Fetcher ::
  "(jsval \<Rightarrow> jsval \<Rightarrow> response settled) \<Rightarrow> jsval \<Rightarrow> (unit, params) callable \<Rightarrow>
     jsval \<Rightarrow> (jsval \<Rightarrow> jsval + jsval) \<Rightarrow> outcome run" where
  "Fetcher fetch actionPrefix paramsFunc key dispatch =
     seq (invoke ''paramsFunc'' CallParamsFunc
            (dispatchSuccessAction actionPrefix key dispatch) paramsFunc ()) (\<lambda>p.
     seq (lift (destructure p)) (\<lambda>b.
     if typeof actionPrefix \<noteq> ''string'' \<or> typeof_callable (fetchURLFunc b) \<noteq> ''function'' then
       seq (lift (error_message actionPrefix (fetchURLFunc b))) (\<lambda>msg.
       seq (call (ConsoleError msg) (Inr Undefined)) (\<lambda>_.
       ret (Value Undefined)))
     else
       seq (lift (requestAction actionPrefix key)) (\<lambda>a.
       seq (call (Dispatch a) (dispatch a)) (\<lambda>_.
       seq (invoke ''fetchURLFunc'' (CallFetchURLFunc key)
              (dispatchSuccessAction actionPrefix key dispatch) (fetchURLFunc b) key) (\<lambda>url.
       seq (invoke ''fetchOptionsFunc'' (CallFetchOptionsFunc key)
              (dispatchSuccessAction actionPrefix key dispatch) (fetchOptionsFunc b) key) (\<lambda>options.
       seq (call (CallFetch url options) (Inr (fetch url options))) (\<lambda>response.
       returned (then_promise response
         (onResponse actionPrefix key dispatch b)
         (onError actionPrefix key dispatch)))))))))"

section \<open>Reading a trace\<close>

text \<open>The actions handed to \<^verbatim>\<open>dispatch\<close>, in order.\<close>

fun dispatched :: "event list \<Rightarrow> jsval list" where
  "dispatched [] = []"
| "dispatched (Dispatch a # es) = a # dispatched es"
| "dispatched (ev # es) = dispatched es"

text \<open>Network activity: computing the URL and the options, and the call of \<^verbatim>\<open>fetch\<close>.\<close>

fun network :: "event \<Rightarrow> bool" where
  "network (CallFetchURLFunc k) = True"
| "network (CallFetchOptionsFunc k) = True"
| "network (CallFetch url options) = True"
| "network ev = False"

text \<open>Reading an own property of an action object.\<close>

fun property :: "jsval \<Rightarrow> string \<Rightarrow> jsval" where
  "property (Object kvs) name = (case own_property kvs name of None \<Rightarrow> Undefined | Some v \<Rightarrow> v)"
| "property v name = Undefined"

section \<open>Examples\<close>

text \<open>
  The README: \<^verbatim>\<open>Fetcher('FETCH_FRIENDS', () => ({ fetchURLFunc: user => '/api/' + user + '/friends/' }))\<close>,
  a transport whose response decodes to \<^verbatim>\<open>["bob","carol"]\<close>, a transport that rejects
  with \<^verbatim>\<open>"ECONNRESET"\<close>, and a \<^verbatim>\<open>dispatch\<close> that returns the action it is given.
\<close>

definition friendsURL :: "jsval \<Rightarrow> jsval behaviour" where
  "friendsURL user =
     Done (case concat_left ''/api/'' user of
             Inl e \<Rightarrow> Inl e
           | Inr s \<Rightarrow> Inr (String (s @ ''/friends/'')))"

definition fetchFriends_params :: "unit \<Rightarrow> params behaviour" where
  "fetchFriends_params u = Done (Inr (Dict [(''fetchURLFunc'', Fn friendsURL)]))"

definition friends_transport :: "jsval \<Rightarrow> jsval \<Rightarrow> response settled" where
  "friends_transport url options =
     Fulfilled (\<lambda>m. Fulfilled (Array [String ''bob'', String ''carol'']))"


definition store_dispatch :: "jsval \<Rightarrow> jsval + jsval" where
  "store_dispatch a = Inr a"

text \<open>
  The README's example of a deferred success: the response is read as a blob and
  \<^verbatim>\<open>deferredSuccess\<close> only registers a callback, so its call returns at once.
\<close>

definition fetchTileImage_params :: "unit \<Rightarrow> params behaviour" where
  "fetchTileImage_params u =
     Done (Inr (Dict [
       (''fetchURLFunc'', Fn (\<lambda>user.
          Done (case concat_left ''/api/'' user of
                  Inl e \<Rightarrow> Inl e
                | Inr s \<Rightarrow> Inr (String (s @ ''/mugshot/''))))),
       (''responseType'', Val (String ''blob'')),
       (''deferredSuccess'', Fn (\<lambda>mugshotBlob. Done (Inr Undefined)))]))"

definition mugshot_transport :: "jsval \<Rightarrow> jsval \<Rightarrow> response settled" where
  "mugshot_transport url options = Fulfilled (\<lambda>m. Fulfilled (String ''mugshot''))"

text \<open>
  Further inputs. A configuration whose \<^verbatim>\<open>responseType\<close> names no body method; one
  without \<^verbatim>\<open>fetchURLFunc\<close>; one that supplies every option (a POST, the body read as text
  and wrapped in an array); a transport whose body cannot be decoded.
\<close>

definition fetchXml_params :: "unit \<Rightarrow> params behaviour" where
  "fetchXml_params u =
     Done (Inr (Dict [
       (''fetchURLFunc'', Fn (\<lambda>user. Done (Inr (String ''/api/feed'')))),
       (''responseType'', Val (String ''xml''))]))"

definition missing_url_params :: "unit \<Rightarrow> params behaviour" where
  "missing_url_params u = Done (Inr (Dict [(''responseType'', Val (String ''json''))]))"




text \<open>
  Functions that use the capability while they run:
  \<^verbatim>\<open>cap => { cap('early'); return {} }\<close> as \<^verbatim>\<open>paramsFunc\<close>,
  \<^verbatim>\<open>key => { cap('x'); return '/u' }\<close> as \<^verbatim>\<open>fetchURLFunc\<close>, and
  \<^verbatim>\<open>value => { cap(value); return value }\<close> as \<^verbatim>\<open>parseResponse\<close>.
\<close>

definition early_params :: "unit \<Rightarrow> params behaviour" where
  "early_params u =
     CallCapability (String ''early'') (\<lambda>c.
       case c of Inl e \<Rightarrow> Done (Inl e) | Inr r \<Rightarrow> Done (Inr (Dict [])))"



section \<open>Auxiliary facts\<close>

lemma dispatched_append: "dispatched (xs @ ys) = dispatched xs @ dispatched ys"
  by (induction xs rule: dispatched.induct) simp_all

lemma dispatched_subset: "a \<in> set (dispatched es) \<longleftrightarrow> Dispatch a \<in> set es"
  by (induction es rule: dispatched.induct) auto

lemma fst_seq: "fst (seq m f) = fst m @ (case snd m of Inl e \<Rightarrow> [] | Inr x \<Rightarrow> fst (f x))"
  by (simp add: seq_def split: prod.splits sum.splits)

lemma snd_seq: "snd (seq m f) = (case snd m of Inl e \<Rightarrow> Inl e | Inr x \<Rightarrow> snd (f x))"
  by (simp add: seq_def split: prod.splits sum.splits)

lemma seq_throw: "seq (es, Inl e) f = (es, Inl e)"
  by (simp add: seq_def)

lemma seq_return: "seq (es, Inr x) f = (es @ fst (f x), snd (f x))"
  by (simp add: seq_def split: prod.splits)

lemma fst_settle: "fst (settle r) = fst r"
  by (simp add: settle_def split: prod.splits sum.splits outcome.splits)

lemma fst_promise: "fst (promise q) = fst q"
  by (simp add: promise_def split: prod.splits)

lemma snd_promise: "snd (promise q) = Inr (Promise (snd q))"
  by (simp add: promise_def split: prod.splits)

lemma fst_returned: "fst (returned q) = fst q @ settlement (snd q)"
  by (simp add: returned_def split: prod.splits)

lemma snd_returned: "snd (returned q) = Inr (Promise (snd q))"
  by (simp add: returned_def split: prod.splits)

lemma fst_then_promise:
  "fst (then_promise p f g) =
     (case p of Pending \<Rightarrow> [] | Fulfilled x \<Rightarrow> fst (f x) | Rejected e \<Rightarrow> fst (g e))"
  by (simp add: then_promise_def fst_settle split: settled.splits)

lemma settlement_cases: "settlement s = [] \<or> settlement s = [Settle s]"
  by (cases s) simp_all


lemma typeof_not_function: "typeof v \<noteq> ''function''"
  by (cases v) simp_all

lemma typeof_callable_function: "typeof_callable f = ''function'' \<longleftrightarrow> (\<exists>g. f = Fn g)"
  by (cases f) (simp_all add: typeof_not_function)

lemma concat_right_String: "concat_right (String s) t = Inr (s @ t)"
  by (simp add: concat_right_def)

lemma requestAction_String:
  "requestAction (String p) k = Inr (Object [(''type'', String (p @ ''_REQUEST'')), (''key'', k)])"
  by (simp add: requestAction_def concat_right_String)

lemma successAction_String:
  "successAction (String p) k r =
     Inr (Object [(''type'', String (p @ ''_SUCCESS'')), (''key'', k), (''result'', r)])"
  by (simp add: successAction_def concat_right_String)

lemma failureAction_String:
  "failureAction (String p) k e =
     Inr (Object [(''type'', String (p @ ''_FAILURE'')), (''key'', k), (''error'', e)])"
  by (simp add: failureAction_def concat_right_String)

lemma onError_String:
  "onError (String p) k d e =
     ([Dispatch (Object [(''type'', String (p @ ''_FAILURE'')), (''key'', k), (''error'', e)])],
      case d (Object [(''type'', String (p @ ''_FAILURE'')), (''key'', k), (''error'', e)]) of
        Inl x \<Rightarrow> Inl x | Inr r \<Rightarrow> Inr (Value r))"
  by (simp add: onError_def failureAction_String seq_def lift_def call_def ret_def split: sum.splits)

lemma dispatchSuccessAction_String:
  "dispatchSuccessAction (String p) k d r =
     ([Dispatch (Object [(''type'', String (p @ ''_SUCCESS'')), (''key'', k), (''result'', r)])],
      case d (Object [(''type'', String (p @ ''_SUCCESS'')), (''key'', k), (''result'', r)]) of
        Inl x \<Rightarrow> Inl x | Inr u \<Rightarrow> Inr Undefined)"
  by (simp add: dispatchSuccessAction_def successAction_String seq_def lift_def call_def ret_def
      split: sum.splits)

text \<open>What the capability does, whatever the prefix: at most one dispatch, of a success
  action with the key and the given result.\<close>

lemma dispatchSuccessAction_events:
  "ev \<in> set (fst (dispatchSuccessAction pre k d r)) \<Longrightarrow>
     \<exists>t. concat_right pre ''_SUCCESS'' = Inr t \<and>
       ev = Dispatch (Object [(''type'', String t), (''key'', k), (''result'', r)])"
  by (auto simp add: dispatchSuccessAction_def successAction_def fst_seq
      lift_def call_def ret_def split: sum.splits)

text \<open>A function of the caller's adds nothing to the trace but what the capability does.\<close>

lemma perform_events:
  "ev \<in> set (fst (perform (dispatchSuccessAction pre k d) beh)) \<Longrightarrow>
     \<exists>t r. concat_right pre ''_SUCCESS'' = Inr t \<and>
       ev = Dispatch (Object [(''type'', String t), (''key'', k), (''result'', r)])"
proof (induction beh)
  case (Done c)
  then show ?case by simp
next
  case (CallCapability r continue)
  obtain es c where a: "dispatchSuccessAction pre k d r = (es, c)"
    by (cases "dispatchSuccessAction pre k d r")
  obtain es' c' where b: "perform (dispatchSuccessAction pre k d) (continue c) = (es', c')"
    by (cases "perform (dispatchSuccessAction pre k d) (continue c)")
  from CallCapability.prems a b have "ev \<in> set es \<or> ev \<in> set es'"
    by simp
  then show ?case
  proof
    assume "ev \<in> set es"
    with a have "ev \<in> set (fst (dispatchSuccessAction pre k d r))"
      by simp
    from dispatchSuccessAction_events [OF this] show ?thesis
      by blast
  next
    assume "ev \<in> set es'"
    with b have "ev \<in> set (fst (perform (dispatchSuccessAction pre k d) (continue c)))"
      by simp
    with CallCapability.IH [of "continue c"] show ?thesis
      by blast
  qed
qed

lemma perform_not_network:
  "ev \<in> set (fst (perform (dispatchSuccessAction pre k d) beh)) \<Longrightarrow> \<not> network ev"
  by (auto dest: perform_events)

lemma perform_not_settle:
  "Settle s \<notin> set (fst (perform (dispatchSuccessAction pre k d) beh))"
  by (auto dest: perform_events)

lemma perform_type:
  "a \<in> set (dispatched (fst (perform (dispatchSuccessAction (String p) k d) beh))) \<Longrightarrow>
     property a ''type'' = String (p @ ''_SUCCESS'')"
  by (auto simp add: dispatched_subset own_property_def concat_right_String dest!: perform_events)

lemma fst_invoke:
  "fst (invoke name ev cap f x) =
     (case f of Val v \<Rightarrow> [] | Fn g \<Rightarrow> ev # fst (perform cap (g x)))"
  by (simp add: invoke_def lift_def call_def seq_def split: callable.splits prod.splits)

lemma snd_invoke:
  "snd (invoke name ev cap f x) =
     (case f of Val v \<Rightarrow> Inl (TypeError (name @ '' is not a function''))
      | Fn g \<Rightarrow> snd (perform cap (g x)))"
  by (simp add: invoke_def lift_def call_def seq_def split: callable.splits prod.splits)

lemma invoke_Fn:
  "perform cap (g x) = (es, c) \<Longrightarrow> invoke name ev cap (Fn g) x = (ev # es, c)"
  by (simp add: invoke_def call_def seq_def)

text \<open>The run of a valid invocation up to the call of fetch.\<close>

lemma Fetcher_valid:
  assumes "perform (dispatchSuccessAction (String p) k d) (pf ()) = (by_provider, Inr ps)"
    and "destructure ps = Inr b"
    and "fetchURLFunc b = Fn urlf"
  shows "Fetcher fetch (String p) (Fn pf) k d =
     seq (CallParamsFunc # by_provider @
            [Dispatch (Object [(''type'', String (p @ ''_REQUEST'')), (''key'', k)])],
          d (Object [(''type'', String (p @ ''_REQUEST'')), (''key'', k)])) (\<lambda>_.
     seq (invoke ''fetchURLFunc'' (CallFetchURLFunc k)
            (dispatchSuccessAction (String p) k d) (Fn urlf) k) (\<lambda>url.
     seq (invoke ''fetchOptionsFunc'' (CallFetchOptionsFunc k)
            (dispatchSuccessAction (String p) k d) (fetchOptionsFunc b) k) (\<lambda>options.
     seq (call (CallFetch url options) (Inr (fetch url options))) (\<lambda>response.
     returned (then_promise response (onResponse (String p) k d b) (onError (String p) k d))))))"
  using assms
  by (simp add: Fetcher_def invoke_Fn requestAction_String seq_def lift_def call_def
      split: sum.splits prod.splits)

text \<open>An inventory of the events of each part of the code.\<close>

lemma seq_events:
  "ev \<in> set (fst (seq m f)) \<Longrightarrow>
     ev \<in> set (fst m) \<or> (\<exists>x. snd m = Inr x \<and> ev \<in> set (fst (f x)))"
  by (auto simp add: fst_seq split: sum.splits)

lemma then_promise_events:
  "ev \<in> set (fst (then_promise p f g)) \<Longrightarrow>
     (\<exists>x. ev \<in> set (fst (f x))) \<or> (\<exists>e. ev \<in> set (fst (g e)))"
  by (cases p) (auto simp add: fst_then_promise)

lemma call_body_method_events:
  "ev \<in> set (fst (call_body_method resp rt)) \<Longrightarrow> \<exists>m. ev = CallBodyMethod m"
  by (auto simp add: call_body_method_def fst_seq lift_def call_def
      split: callable.splits jsval.splits sum.splits option.splits)

lemma invoke_events:
  "e \<in> set (fst (invoke name ev cap f x)) \<Longrightarrow>
     e = ev \<or> (\<exists>g. f = Fn g \<and> e \<in> set (fst (perform cap (g x))))"
  by (cases f) (auto simp add: fst_invoke)

lemma onError_events:
  "ev \<in> set (fst (onError pre k d e)) \<Longrightarrow>
     \<exists>a. failureAction pre k e = Inr a \<and> ev = Dispatch a"
  by (auto simp add: onError_def fst_seq lift_def call_def ret_def split: sum.splits)

lemma capability_events:
  "ev \<in> set (fst (dispatchSuccessAction pre k d r)) \<Longrightarrow>
     \<exists>a. successAction pre k r = Inr a \<and> ev = Dispatch a"
  by (auto simp add: dispatchSuccessAction_def fst_seq lift_def call_def ret_def
      split: sum.splits)

lemma callback_events:
  "ev \<in> set (fst (perform (dispatchSuccessAction pre k d) beh)) \<Longrightarrow>
     \<exists>r a. successAction pre k r = Inr a \<and> ev = Dispatch a"
  by (auto simp add: successAction_def dest!: perform_events)

lemma onValue_events:
  assumes "ev \<in> set (fst (onValue pre k d b v))"
  shows "ev = CallDeferredSuccess v \<or> ev = CallParseResponse v \<or>
    (\<exists>r a. successAction pre k r = Inr a \<and> ev = Dispatch a)"
proof (cases "typeof_callable (deferredSuccess b) \<noteq> ''undefined''")
  case True
  with assms have "ev \<in> set (fst (invoke ''deferredSuccess'' (CallDeferredSuccess v)
      (dispatchSuccessAction pre k d) (deferredSuccess b) v))"
    by (auto simp add: onValue_def ret_def dest!: seq_events)
  then show ?thesis
    by (auto dest!: invoke_events callback_events)
next
  case False
  with assms have "ev \<in> set (fst (invoke ''parseResponse'' (CallParseResponse v)
      (dispatchSuccessAction pre k d) (parseResponse b) v)) \<or>
    (\<exists>r. ev \<in> set (fst (dispatchSuccessAction pre k d r)))"
    by (auto simp add: onValue_def ret_def dest!: seq_events)
  then show ?thesis
    by (auto dest!: invoke_events callback_events capability_events)
qed

lemma onResponse_events:
  assumes "ev \<in> set (fst (onResponse pre k d b resp))"
  shows "(\<exists>m. ev = CallBodyMethod m) \<or> (\<exists>v. ev = CallDeferredSuccess v) \<or>
    (\<exists>v. ev = CallParseResponse v) \<or>
    (\<exists>r a. successAction pre k r = Inr a \<and> ev = Dispatch a) \<or>
    (\<exists>e a. failureAction pre k e = Inr a \<and> ev = Dispatch a)"
proof -
  from assms have "ev \<in> set (fst (call_body_method resp (responseType b))) \<or>
      (\<exists>v. ev \<in> set (fst (onValue pre k d b v))) \<or>
      (\<exists>e. ev \<in> set (fst (onError pre k d e)))"
    by (auto simp add: onResponse_def fst_promise dest!: seq_events then_promise_events)
  then show ?thesis
    by (auto dest!: call_body_method_events onValue_events onError_events)
qed

lemma settlement_events: "ev \<in> set (settlement s) \<Longrightarrow> ev = Settle s"
  by (cases s) auto

lemma Fetcher_events:
  assumes "ev \<in> set (fst (Fetcher fetch pre pf k d))"
  shows "ev = CallParamsFunc \<or> (\<exists>msg. ev = ConsoleError msg) \<or>
    ev = CallFetchURLFunc k \<or> ev = CallFetchOptionsFunc k \<or>
    (\<exists>url options. ev = CallFetch url options) \<or>
    (\<exists>m. ev = CallBodyMethod m) \<or> (\<exists>v. ev = CallDeferredSuccess v) \<or>
    (\<exists>v. ev = CallParseResponse v) \<or> (\<exists>s. ev = Settle s) \<or>
    (\<exists>a. requestAction pre k = Inr a \<and> ev = Dispatch a) \<or>
    (\<exists>r a. successAction pre k r = Inr a \<and> ev = Dispatch a) \<or>
    (\<exists>e a. failureAction pre k e = Inr a \<and> ev = Dispatch a)"
proof -
  from assms have "ev = CallParamsFunc \<or>
      (\<exists>beh :: params behaviour.
         ev \<in> set (fst (perform (dispatchSuccessAction pre k d) beh))) \<or>
      (\<exists>msg. ev = ConsoleError msg) \<or>
      (\<exists>a. requestAction pre k = Inr a \<and> ev = Dispatch a) \<or>
      ev = CallFetchURLFunc k \<or> ev = CallFetchOptionsFunc k \<or>
      (\<exists>beh :: jsval behaviour.
         ev \<in> set (fst (perform (dispatchSuccessAction pre k d) beh))) \<or>
      (\<exists>url options. ev = CallFetch url options) \<or>
      (\<exists>b resp. ev \<in> set (fst (onResponse pre k d b resp))) \<or>
      (\<exists>e. ev \<in> set (fst (onError pre k d e))) \<or>
      (\<exists>s. ev = Settle s)"
    by (auto simp add: Fetcher_def lift_def call_def ret_def fst_returned
        dest!: seq_events then_promise_events settlement_events invoke_events
        split: if_splits)
  then show ?thesis
    by (auto dest!: callback_events onResponse_events onError_events)
qed

lemma Fetcher_dispatch_key:
  "Dispatch a \<in> set (fst (Fetcher fetch pre pf k d)) \<Longrightarrow> property a ''key'' = k"
  by (auto simp add: requestAction_def successAction_def failureAction_def own_property_def
      dest!: Fetcher_events split: sum.splits)

lemma before_first:
  assumes "xs @ x # ys = before @ ev # after" and "ev \<notin> set xs" and "ev \<noteq> x"
  shows "x \<in> set before"
  using assms
  by (auto simp add: append_eq_append_conv2 append_eq_Cons_conv Cons_eq_append_conv)

lemma tail_dispatch_type:
  assumes "Dispatch a \<in> set (fst (
     seq (invoke ''fetchURLFunc'' (CallFetchURLFunc k)
            (dispatchSuccessAction (String p) k d) (Fn urlf) k) (\<lambda>url.
     seq (invoke ''fetchOptionsFunc'' (CallFetchOptionsFunc k)
            (dispatchSuccessAction (String p) k d) optionsFunc k) (\<lambda>options.
     seq (call (CallFetch url options) (Inr (fetch url options))) (\<lambda>response.
     returned (then_promise response (onResponse (String p) k d b) (onError (String p) k d)))))))"
  shows "property a ''type'' = String (p @ ''_SUCCESS'') \<or>
    property a ''type'' = String (p @ ''_FAILURE'')"
proof -
  from assms have "(\<exists>beh :: jsval behaviour.
        Dispatch a \<in> set (fst (perform (dispatchSuccessAction (String p) k d) beh))) \<or>
      (\<exists>resp. Dispatch a \<in> set (fst (onResponse (String p) k d b resp))) \<or>
      (\<exists>e. Dispatch a \<in> set (fst (onError (String p) k d e)))"
    by (auto simp add: call_def fst_returned
        dest!: seq_events then_promise_events settlement_events invoke_events)
  then show ?thesis
    by (auto simp add: successAction_String failureAction_String own_property_def
        dest!: callback_events onResponse_events onError_events)
qed

lemma invoke_Fn_eq:
  "invoke name ev cap (Fn g) x = (ev # fst (perform cap (g x)), snd (perform cap (g x)))"
  by (simp add: invoke_def call_def seq_def split: prod.splits)




lemma Fetcher_malformed:
  assumes "perform (dispatchSuccessAction actionPrefix key dispatch) (pf ()) = (by_provider, Inr p)"
    and "destructure p = Inr b"
    and "typeof actionPrefix \<noteq> ''string'' \<or> typeof_callable (fetchURLFunc b) \<noteq> ''function''"
  shows "Fetcher fetch actionPrefix (Fn pf) key dispatch =
    (case error_message actionPrefix (fetchURLFunc b) of
       Inl e \<Rightarrow> (CallParamsFunc # by_provider, Inl e)
     | Inr msg \<Rightarrow> (CallParamsFunc # by_provider @ [ConsoleError msg], Inr (Value Undefined)))"
proof -
  have "Fetcher fetch actionPrefix (Fn pf) key dispatch =
      seq (CallParamsFunc # by_provider, Inr p) (\<lambda>p.
      seq ([], Inr b) (\<lambda>b.
        seq (lift (error_message actionPrefix (fetchURLFunc b))) (\<lambda>msg.
        seq (call (ConsoleError msg) (Inr Undefined)) (\<lambda>_.
        ret (Value Undefined)))))"
    using assms(3)
    by (simp only: Fetcher_def invoke_Fn_eq assms(1) lift_def seq_return
        fst_conv snd_conv append_Nil append_Cons assms(2) if_True)
  then show ?thesis
    by (simp add: seq_def lift_def call_def ret_def split: sum.splits)
qed

lemma Fetcher_malformed_trace:
  assumes "typeof actionPrefix \<noteq> ''string'' \<or>
     (\<exists>pf by_provider p b. paramsFunc = Fn pf \<and>
        perform (dispatchSuccessAction actionPrefix key dispatch) (pf ()) = (by_provider, Inr p) \<and>
        destructure p = Inr b \<and>
        typeof_callable (fetchURLFunc b) \<noteq> ''function'')"
  shows "\<exists>es. fst (Fetcher fetch actionPrefix paramsFunc key dispatch) =
      (case paramsFunc of
         Val v \<Rightarrow> []
       | Fn pf \<Rightarrow>
           CallParamsFunc # fst (perform (dispatchSuccessAction actionPrefix key dispatch) (pf ()))) @
      es \<and>
    (es = [] \<or> (\<exists>msg. es = [ConsoleError msg]))"
proof (cases paramsFunc)
  case (Val v)
  then show ?thesis
    by (simp add: Fetcher_def invoke_def lift_def seq_throw)
next
  case (Fn pf)
  obtain by_provider c where run: "perform (dispatchSuccessAction actionPrefix key dispatch) (pf ()) = (by_provider, c)"
    by (cases "perform (dispatchSuccessAction actionPrefix key dispatch) (pf ())")
  show ?thesis
  proof (cases c)
    case (Inl e)
    with run show ?thesis
      by (simp add: Fn Fetcher_def invoke_Fn_eq seq_throw)
  next
    case p: (Inr p)
    show ?thesis
    proof (cases "destructure p")
      case (Inl e)
      with run p show ?thesis
        by (simp add: Fn Fetcher_def invoke_Fn_eq lift_def seq_return seq_throw)
    next
      case b: (Inr b)
      from assms Fn run p b
      have "typeof actionPrefix \<noteq> ''string'' \<or> typeof_callable (fetchURLFunc b) \<noteq> ''function''"
        by auto
      from Fetcher_malformed [where pf = pf, OF run [unfolded p] b this] run show ?thesis
        by (simp add: Fn split: sum.splits)
    qed
  qed
qed

lemma call_body_method_json:
  "call_body_method response (Val (String ''json'')) = ([CallBodyMethod Json], Inr (response Json))"
  by (simp add: call_body_method_def method_named_def seq_def lift_def call_def)

lemma call_body_method_blob:
  "call_body_method response (Val (String ''blob'')) = ([CallBodyMethod Blob], Inr (response Blob))"
  by (simp add: call_body_method_def method_named_def seq_def lift_def call_def)

lemma fetchFriends_bindings:
  "\<exists>p b urlf optf parse.
     perform cap (fetchFriends_params ()) = ([], Inr p) \<and>
     destructure p = Inr b \<and>
     fetchURLFunc b = Fn urlf \<and>
     perform cap (urlf (String ''alice'')) = ([], Inr (String ''/api/alice/friends/'')) \<and>
     fetchOptionsFunc b = Fn optf \<and>
     perform cap (optf (String ''alice'')) = ([], Inr (Object [(''method'', String ''GET'')])) \<and>
     responseType b = Val (String ''json'') \<and>
     parseResponse b = Fn parse \<and> (\<forall>v. perform cap (parse v) = ([], Inr v)) \<and>
     deferredSuccess b = Val Undefined"
  by (simp add: fetchFriends_params_def friendsURL_def destructure_def concat_left_def
      own_property_def)

lemma fetchTileImage_bindings:
  "\<exists>p b urlf optf ds.
     perform cap (fetchTileImage_params ()) = ([], Inr p) \<and>
     destructure p = Inr b \<and>
     fetchURLFunc b = Fn urlf \<and>
     perform cap (urlf (String ''alice'')) = ([], Inr (String ''/api/alice/mugshot/'')) \<and>
     fetchOptionsFunc b = Fn optf \<and>
     perform cap (optf (String ''alice'')) = ([], Inr (Object [(''method'', String ''GET'')])) \<and>
     responseType b = Val (String ''blob'') \<and>
     deferredSuccess b = Fn ds \<and> perform cap (ds (String ''mugshot'')) = ([], Inr Undefined)"
  by (simp add: fetchTileImage_params_def destructure_def concat_left_def own_property_def)

lemma fetchXml_bindings:
  "\<exists>p b urlf optf.
     perform cap (fetchXml_params ()) = ([], Inr p) \<and>
     destructure p = Inr b \<and>
     fetchURLFunc b = Fn urlf \<and>
     perform cap (urlf (Number ''7'')) = ([], Inr (String ''/api/feed'')) \<and>
     fetchOptionsFunc b = Fn optf \<and>
     perform cap (optf (Number ''7'')) = ([], Inr (Object [(''method'', String ''GET'')])) \<and>
     responseType b = Val (String ''xml'')"
  by (simp add: fetchXml_params_def destructure_def own_property_def)

lemma store_dispatch_request:
  "store_dispatch (Object [(''type'', String (p @ ''_REQUEST'')), (''key'', k)]) =
     Inr (Object [(''type'', String (p @ ''_REQUEST'')), (''key'', k)])"
  by (simp add: store_dispatch_def)



section \<open>The request notification\<close>

text \<open>
  Claim C1. For a string prefix and a configuration whose \<^verbatim>\<open>fetchURLFunc\<close> is a function,
  the trace of an invocation starts with the call of \<^verbatim>\<open>paramsFunc\<close> and what that call does
  (\<open>by_provider\<close>: nothing but dispatches of success actions through the capability, and
  nothing at all if it does not call it), followed at once by the dispatch of
  \<^verbatim>\<open>{type: <prefix>_REQUEST, key}\<close> with the key of the invocation. No other dispatch,
  earlier or later, carries the request type, and wherever the trace holds a network event
  (a call of \<^verbatim>\<open>fetchURLFunc\<close>, \<^verbatim>\<open>fetchOptionsFunc\<close> or \<^verbatim>\<open>fetch\<close>) the request dispatch
  stands before it: the request notification is dispatched exactly once, before any
  network activity.
\<close>

theorem request_notification_first:
  assumes "perform (dispatchSuccessAction (String prefix) key dispatch) (pf ()) = (by_provider, Inr p)"
    and "destructure p = Inr b"
    and "typeof_callable (fetchURLFunc b) = ''function''"
  shows "\<exists>rest. fst (Fetcher fetch (String prefix) (Fn pf) key dispatch) =
           CallParamsFunc # by_provider @
           Dispatch (Object [(''type'', String (prefix @ ''_REQUEST'')), (''key'', key)]) # rest \<and>
         (\<forall>a \<in> set (dispatched by_provider). property a ''type'' \<noteq> String (prefix @ ''_REQUEST'')) \<and>
         (\<forall>a \<in> set (dispatched rest). property a ''type'' \<noteq> String (prefix @ ''_REQUEST'')) \<and>
         (\<forall>before ev after.
            fst (Fetcher fetch (String prefix) (Fn pf) key dispatch) = before @ ev # after \<and>
            network ev \<longrightarrow>
            Dispatch (Object [(''type'', String (prefix @ ''_REQUEST'')), (''key'', key)])
              \<in> set before)"
proof -
  from assms(3) obtain urlf where urlf: "fetchURLFunc b = Fn urlf"
    by (auto simp add: typeof_callable_function)
  let ?req = "Object [(''type'', String (prefix @ ''_REQUEST'')), (''key'', key)]"
  let ?tail = "seq (invoke ''fetchURLFunc'' (CallFetchURLFunc key)
            (dispatchSuccessAction (String prefix) key dispatch) (Fn urlf) key) (\<lambda>url.
     seq (invoke ''fetchOptionsFunc'' (CallFetchOptionsFunc key)
            (dispatchSuccessAction (String prefix) key dispatch) (fetchOptionsFunc b) key) (\<lambda>options.
     seq (call (CallFetch url options) (Inr (fetch url options))) (\<lambda>response.
     returned (then_promise response (onResponse (String prefix) key dispatch b)
       (onError (String prefix) key dispatch)))))"
  let ?rest = "case dispatch ?req of Inl e \<Rightarrow> [] | Inr r \<Rightarrow> fst ?tail"
  have trace: "fst (Fetcher fetch (String prefix) (Fn pf) key dispatch) =
      (CallParamsFunc # by_provider) @ Dispatch ?req # ?rest"
    by (simp add: Fetcher_valid [where pf = pf, OF assms(1,2) urlf] fst_seq)
  have provider: "fst (perform (dispatchSuccessAction (String prefix) key dispatch) (pf ())) = by_provider"
    by (simp add: assms(1))
  have early: "property a ''type'' \<noteq> String (prefix @ ''_REQUEST'')"
    if "a \<in> set (dispatched by_provider)" for a
    using that perform_type [of a prefix key dispatch "pf ()"]
    by (simp add: provider)
  have later: "property a ''type'' \<noteq> String (prefix @ ''_REQUEST'')"
    if "a \<in> set (dispatched ?rest)" for a
  proof -
    from that have "Dispatch a \<in> set (fst ?tail)"
      by (simp add: dispatched_subset split: sum.splits)
    from tail_dispatch_type [OF this] show ?thesis
      by auto
  qed
  have first: "Dispatch ?req \<in> set before"
    if "(CallParamsFunc # by_provider) @ Dispatch ?req # ?rest = before @ ev # after" and "network ev"
    for before ev after
  proof (rule before_first [OF that(1)])
    from that(2) perform_not_network [of ev "String prefix" key dispatch "pf ()"]
    show "ev \<notin> set (CallParamsFunc # by_provider)"
      by (auto simp add: provider)
    from that(2) show "ev \<noteq> Dispatch ?req"
      by auto
  qed
  from trace early later first show ?thesis
    by (intro exI [of _ ?rest]) (simp only: append_Cons append_Nil, blast)
qed

text \<open>
  The README example, with the transport that answers \<^verbatim>\<open>["bob","carol"]\<close>.
\<close>

theorem request_notification_first_witness:
  "\<exists>rest. fst (Fetcher friends_transport (String ''FETCH_FRIENDS'') (Fn fetchFriends_params)
              (String ''alice'') store_dispatch) =
      CallParamsFunc #
      Dispatch (Object [(''type'', String ''FETCH_FRIENDS_REQUEST''), (''key'', String ''alice'')]) # rest \<and>
    (\<forall>a \<in> set (dispatched rest). property a ''type'' \<noteq> String ''FETCH_FRIENDS_REQUEST'') \<and>
    (\<forall>before ev after.
       fst (Fetcher friends_transport (String ''FETCH_FRIENDS'') (Fn fetchFriends_params)
              (String ''alice'') store_dispatch) = before @ ev # after \<and>
       network ev \<longrightarrow>
       Dispatch (Object [(''type'', String ''FETCH_FRIENDS_REQUEST''), (''key'', String ''alice'')])
         \<in> set before)"
proof -
  from fetchFriends_bindings
    [of "dispatchSuccessAction (String ''FETCH_FRIENDS'') (String ''alice'') store_dispatch"]
  obtain p b where
    p: "perform (dispatchSuccessAction (String ''FETCH_FRIENDS'') (String ''alice'') store_dispatch)
          (fetchFriends_params ()) = ([], Inr p)"
    and b: "destructure p = Inr b"
    and f: "typeof_callable (fetchURLFunc b) = ''function''"
    by auto
  from request_notification_first [where pf = fetchFriends_params, OF p b f, of friends_transport]
  show ?thesis by simp
qed

section \<open>The success notification\<close>




section \<open>The failure notification\<close>




section \<open>Deferred success\<close>

text \<open>
  Claim C4. With a function \<^verbatim>\<open>deferredSuccess\<close> in the configuration and a body that decodes
  to \<open>v\<close>, the invocation calls \<^verbatim>\<open>deferredSuccess(v)\<close> and then only settles its promise:
  \<^verbatim>\<open>parseResponse\<close> is not called, and the only action the invocation dispatches itself is
  the request notification. Whatever else the trace holds is what the functions of the
  caller did through the capability while they ran (\<open>by_provider\<close>, \<open>by_url\<close>,
  \<open>by_options\<close>, and \<open>by_value\<close> for \<^verbatim>\<open>deferredSuccess\<close>). The capability, called with
  \<open>result\<close>, dispatches \<^verbatim>\<open>{type: <prefix>_SUCCESS, key, result}\<close> with the key of the
  invocation.
\<close>

theorem deferred_success:
  assumes provider:
      "perform (dispatchSuccessAction (String prefix) key dispatch) (pf ()) = (by_provider, Inr p)"
    and config: "destructure p = Inr b"
    and url_fn: "fetchURLFunc b = Fn urlf"
    and options_fn: "fetchOptionsFunc b = Fn optf"
    and deferred: "deferredSuccess b = Fn ds"
    and request_dispatched:
      "dispatch (Object [(''type'', String (prefix @ ''_REQUEST'')), (''key'', key)]) = Inr r"
    and url:
      "perform (dispatchSuccessAction (String prefix) key dispatch) (urlf key) = (by_url, Inr url)"
    and options:
      "perform (dispatchSuccessAction (String prefix) key dispatch) (optf key) = (by_options, Inr options)"
    and network_success: "fetch url options = Fulfilled response"
    and decoding_success:
      "call_body_method response (responseType b) = ([CallBodyMethod m], Inr (Fulfilled v))"
    and deferred_run:
      "perform (dispatchSuccessAction (String prefix) key dispatch) (ds v) = (by_value, c)"
  shows "fst (Fetcher fetch (String prefix) (Fn pf) key dispatch) =
      CallParamsFunc # by_provider @
      [Dispatch (Object [(''type'', String (prefix @ ''_REQUEST'')), (''key'', key)]),
       CallFetchURLFunc key] @ by_url @
      [CallFetchOptionsFunc key] @ by_options @
      [CallFetch url options, CallBodyMethod m, CallDeferredSuccess v] @ by_value @
      [Settle (case c of Inl e \<Rightarrow> Rejected e | Inr u \<Rightarrow> Fulfilled Undefined)] \<and>
    fst (dispatchSuccessAction (String prefix) key dispatch result) =
      [Dispatch (Object [(''type'', String (prefix @ ''_SUCCESS'')), (''key'', key),
                         (''result'', result)])]"
  by (cases c)
    (simp_all add: Fetcher_valid [where pf = pf, OF provider config url_fn]
      options_fn deferred request_dispatched url options network_success decoding_success
      deferred_run
      seq_def returned_def promise_def then_promise_def settle_def invoke_Fn_eq call_def
      onResponse_def onValue_def dispatchSuccessAction_String ret_def)

text \<open>
  The README's deferred example, and the capability called later with an image.
\<close>

theorem deferred_success_witness:
  "fst (Fetcher mugshot_transport (String ''FETCH_FRIENDS'') (Fn fetchTileImage_params)
          (String ''alice'') store_dispatch) =
      [CallParamsFunc,
       Dispatch (Object [(''type'', String ''FETCH_FRIENDS_REQUEST''), (''key'', String ''alice'')]),
       CallFetchURLFunc (String ''alice''), CallFetchOptionsFunc (String ''alice''),
       CallFetch (String ''/api/alice/mugshot/'') (Object [(''method'', String ''GET'')]),
       CallBodyMethod Blob, CallDeferredSuccess (String ''mugshot''),
       Settle (Fulfilled Undefined)] \<and>
   fst (dispatchSuccessAction (String ''FETCH_FRIENDS'') (String ''alice'') store_dispatch
          (String ''image'')) =
      [Dispatch (Object [(''type'', String ''FETCH_FRIENDS_SUCCESS''), (''key'', String ''alice''),
                         (''result'', String ''image'')])]"
proof -
  let ?cap = "dispatchSuccessAction (String ''FETCH_FRIENDS'') (String ''alice'') store_dispatch"
  from fetchTileImage_bindings [of ?cap] obtain p b urlf optf ds where
    p: "perform ?cap (fetchTileImage_params ()) = ([], Inr p)"
    and b: "destructure p = Inr b"
    and urlf: "fetchURLFunc b = Fn urlf"
      "perform ?cap (urlf (String ''alice'')) = ([], Inr (String ''/api/alice/mugshot/''))"
    and optf: "fetchOptionsFunc b = Fn optf"
      "perform ?cap (optf (String ''alice'')) = ([], Inr (Object [(''method'', String ''GET'')]))"
    and rt: "responseType b = Val (String ''blob'')"
    and ds: "deferredSuccess b = Fn ds" "perform ?cap (ds (String ''mugshot'')) = ([], Inr Undefined)"
    by blast
  have f: "mugshot_transport (String ''/api/alice/mugshot/'') (Object [(''method'', String ''GET'')]) =
      Fulfilled (\<lambda>m. Fulfilled (String ''mugshot''))"
    by (simp add: mugshot_transport_def)
  have c: "call_body_method (\<lambda>m. Fulfilled (String ''mugshot'')) (responseType b) =
      ([CallBodyMethod Blob], Inr (Fulfilled (String ''mugshot'')))"
    by (simp add: rt call_body_method_blob)
  from deferred_success [where pf = fetchTileImage_params and urlf = urlf and optf = optf
      and ds = ds and fetch = mugshot_transport and dispatch = store_dispatch
      and key = "String ''alice''" and result = "String ''image''",
      OF p b urlf(1) optf(1) ds(1) store_dispatch_request urlf(2) optf(2) f c ds(2)]
  show ?thesis by simp
qed

section \<open>Malformed input\<close>

text \<open>
  Claim C5 says that no malformed input makes the call throw. It fails when
  \<^verbatim>\<open>paramsFunc\<close> is not a function: line 34 calls it before anything is validated, and the
  call throws a TypeError with nothing logged.
\<close>

theorem provider_not_function_throws:
  "Fetcher friends_transport (String ''FETCH_FRIENDS'') (Val Undefined) (String ''alice'')
     store_dispatch = ([], Inl (TypeError ''paramsFunc is not a function''))"
  by (simp add: Fetcher_def invoke_def seq_def lift_def)

text \<open>
  Claim C5, amended. When \<^verbatim>\<open>paramsFunc\<close> is a function that returns a value that can be
  destructured, and the prefix is not a string or \<^verbatim>\<open>fetchURLFunc\<close> is not a function, the
  call does not throw: it writes one message to \<^verbatim>\<open>console.error\<close> and returns
  \<^verbatim>\<open>undefined\<close>, provided the prefix can be converted to a string for the message (a
  symbol, or an object with a property \<^verbatim>\<open>toString\<close> of its own, cannot).
\<close>

theorem soft_validation:
  assumes provider:
      "perform (dispatchSuccessAction actionPrefix key dispatch) (pf ()) = (by_provider, Inr p)"
    and config: "destructure p = Inr b"
    and malformed:
      "typeof actionPrefix \<noteq> ''string'' \<or> typeof_callable (fetchURLFunc b) \<noteq> ''function''"
    and printable: "ToString actionPrefix = Inr s"
  shows "\<exists>msg. Fetcher fetch actionPrefix (Fn pf) key dispatch =
      (CallParamsFunc # by_provider @ [ConsoleError msg], Inr (Value Undefined))"
  by (simp add: Fetcher_malformed [where pf = pf, OF provider config malformed]
      error_message_def concat_left_def printable)

text \<open>
  The README example called with the number 42 as prefix.
\<close>

theorem soft_validation_witness:
  "\<exists>msg. Fetcher friends_transport (Number ''42'') (Fn fetchFriends_params) (String ''alice'')
       store_dispatch = ([CallParamsFunc, ConsoleError msg], Inr (Value Undefined))"
proof -
  let ?cap = "dispatchSuccessAction (Number ''42'') (String ''alice'') store_dispatch"
  from fetchFriends_bindings [of ?cap] obtain p b where
    p: "perform ?cap (fetchFriends_params ()) = ([], Inr p)"
    and b: "destructure p = Inr b"
    by blast
  have m: "typeof (Number ''42'') \<noteq> ''string'' \<or> typeof_callable (fetchURLFunc b) \<noteq> ''function''"
    by simp
  have s: "ToString (Number ''42'') = Inr ''42''"
    by simp
  from soft_validation [where pf = fetchFriends_params and fetch = friends_transport, OF p b m s]
  show ?thesis by simp
qed

text \<open>
  Claim C6 says that no notification of any kind is dispatched on a configuration error. It
  fails when \<^verbatim>\<open>paramsFunc\<close> calls the capability it is given, which line 34 lets it do
  before anything is validated: \<^verbatim>\<open>cap => { cap('early'); return {} }\<close> dispatches a success
  notification.
\<close>

theorem early_capability_call_dispatches:
  "dispatched (fst (Fetcher friends_transport (String ''FETCH_FRIENDS'') (Fn early_params)
     (String ''alice'') store_dispatch)) =
   [Object [(''type'', String ''FETCH_FRIENDS_SUCCESS''), (''key'', String ''alice''),
            (''result'', String ''early'')]]"
  by (simp add: Fetcher_def early_params_def destructure_def own_property_def invoke_Fn_eq
      seq_def lift_def call_def ret_def store_dispatch_def error_message_def concat_left_def
      dispatchSuccessAction_String)

text \<open>
  Claim C6, amended. When the prefix is not a string, or the configuration returned by
  \<^verbatim>\<open>paramsFunc\<close> has no function \<^verbatim>\<open>fetchURLFunc\<close>, the invocation never computes a URL or
  options nor calls \<^verbatim>\<open>fetch\<close>, and it dispatches nothing of its own, neither request nor
  success nor failure: the actions dispatched are those that \<^verbatim>\<open>paramsFunc\<close> dispatched
  through the capability while it ran, each a success action with the key of the
  invocation, and none if it does not call it.
\<close>

theorem no_notification_on_configuration_error:
  assumes "typeof actionPrefix \<noteq> ''string'' \<or>
     (\<exists>pf by_provider p b. paramsFunc = Fn pf \<and>
        perform (dispatchSuccessAction actionPrefix key dispatch) (pf ()) = (by_provider, Inr p) \<and>
        destructure p = Inr b \<and>
        typeof_callable (fetchURLFunc b) \<noteq> ''function'')"
  shows "dispatched (fst (Fetcher fetch actionPrefix paramsFunc key dispatch)) =
      (case paramsFunc of
         Val v \<Rightarrow> []
       | Fn pf \<Rightarrow>
           dispatched (fst (perform (dispatchSuccessAction actionPrefix key dispatch) (pf ())))) \<and>
    (\<forall>a \<in> set (dispatched (fst (Fetcher fetch actionPrefix paramsFunc key dispatch))).
       \<exists>t result. a = Object [(''type'', String (t @ ''_SUCCESS'')), (''key'', key),
                                (''result'', result)]) \<and>
    (\<forall>ev \<in> set (fst (Fetcher fetch actionPrefix paramsFunc key dispatch)). \<not> network ev)"
proof -
  have own: "dispatched (fst (Fetcher fetch actionPrefix paramsFunc key dispatch)) =
      (case paramsFunc of
         Val v \<Rightarrow> []
       | Fn pf \<Rightarrow>
           dispatched (fst (perform (dispatchSuccessAction actionPrefix key dispatch) (pf ())))) \<and>
    (\<forall>ev \<in> set (fst (Fetcher fetch actionPrefix paramsFunc key dispatch)). \<not> network ev)"
    using Fetcher_malformed_trace [OF assms, of fetch]
    by (cases paramsFunc) (auto simp add: dispatched_append dest: perform_not_network)
  have "\<exists>t result. a = Object [(''type'', String (t @ ''_SUCCESS'')), (''key'', key),
                                (''result'', result)]"
    if "a \<in> set (dispatched (fst (Fetcher fetch actionPrefix paramsFunc key dispatch)))" for a
  proof (cases paramsFunc)
    case (Val v)
    with own that show ?thesis
      by simp
  next
    case (Fn pf)
    with own that have "Dispatch a \<in> set (fst (perform
        (dispatchSuccessAction actionPrefix key dispatch) (pf ())))"
      by (simp add: dispatched_subset)
    from perform_events [OF this] show ?thesis
      by (auto simp add: concat_right_def split: sum.splits)
  qed
  with own show ?thesis
    by blast
qed

text \<open>
  A configuration that omits \<^verbatim>\<open>fetchURLFunc\<close>.
\<close>

theorem no_notification_on_configuration_error_witness:
  "dispatched (fst (Fetcher friends_transport (String ''FETCH_FRIENDS'') (Fn missing_url_params)
      (String ''alice'') store_dispatch)) = [] \<and>
   filter network (fst (Fetcher friends_transport (String ''FETCH_FRIENDS'') (Fn missing_url_params)
      (String ''alice'') store_dispatch)) = []"
proof -
  have "typeof (String ''FETCH_FRIENDS'') \<noteq> ''string'' \<or>
     (\<exists>pf by_provider p b. Fn missing_url_params = Fn pf \<and>
        perform (dispatchSuccessAction (String ''FETCH_FRIENDS'') (String ''alice'') store_dispatch)
          (pf ()) = (by_provider, Inr p) \<and>
        destructure p = Inr b \<and>
        typeof_callable (fetchURLFunc b) \<noteq> ''function'')"
    by (simp add: missing_url_params_def destructure_def own_property_def)
  from no_notification_on_configuration_error [OF this, of friends_transport]
  show ?thesis by (simp add: filter_empty_conv missing_url_params_def)
qed

section \<open>Defaults\<close>



section \<open>The key\<close>

text \<open>
  Claim C8. Every action dispatched in an invocation with key \<open>key\<close>, by the invocation
  itself or through the capability by a function that runs in it, and every action the
  capability dispatches whenever it is called, has that same key as its \<^verbatim>\<open>key\<close> property.
\<close>

theorem key_unchanged:
  "(\<forall>a \<in> set (dispatched (fst (Fetcher fetch actionPrefix paramsFunc key dispatch))).
      property a ''key'' = key) \<and>
   (\<forall>a \<in> set (dispatched (fst (dispatchSuccessAction actionPrefix key dispatch result))).
      property a ''key'' = key)"
  by (auto simp add: dispatched_subset own_property_def
      dest: Fetcher_dispatch_key dest!: dispatchSuccessAction_events)

text \<open>
  The scenario of the specification, where two actions are dispatched.
\<close>

theorem key_unchanged_witness:
  "dispatched (fst (Fetcher friends_transport (String ''FETCH_FRIENDS'') (Fn fetchFriends_params)
      (String ''alice'') store_dispatch)) \<noteq> [] \<and>
   list_all (\<lambda>a. property a ''key'' = String ''alice'')
     (dispatched (fst (Fetcher friends_transport (String ''FETCH_FRIENDS'')
        (Fn fetchFriends_params) (String ''alice'') store_dispatch))) \<and>
   list_all (\<lambda>a. property a ''key'' = String ''alice'')
     (dispatched (fst (dispatchSuccessAction (String ''FETCH_FRIENDS'') (String ''alice'')
        store_dispatch (String ''image''))))"
proof -
  have "dispatched (fst (Fetcher friends_transport (String ''FETCH_FRIENDS'') (Fn fetchFriends_params)
      (String ''alice'') store_dispatch)) \<noteq> []"
    by (simp add: Fetcher_def fetchFriends_params_def destructure_def invoke_Fn_eq fst_seq
        lift_def call_def requestAction_String store_dispatch_def own_property_def
        dispatched_append)
  with key_unchanged [of friends_transport "String ''FETCH_FRIENDS''" "Fn fetchFriends_params"
      "String ''alice''" store_dispatch "String ''image''"]
  show ?thesis by (simp add: list_all_iff)
qed

section \<open>The returned value\<close>

text \<open>
  Claim C9 says that a resolved promise is returned when validation fails. Line 46 is a
  bare \<^verbatim>\<open>return\<close>: the call returns \<^verbatim>\<open>undefined\<close>, not a promise.
\<close>

theorem validation_failure_returns_undefined:
  "snd (Fetcher friends_transport (String ''FETCH_FRIENDS'') (Fn missing_url_params)
     (String ''alice'') store_dispatch) = Inr (Value Undefined)"
  by (simp add: Fetcher_def invoke_Fn_eq missing_url_params_def destructure_def own_property_def
      error_message_def concat_left_def seq_def lift_def call_def ret_def)

text \<open>
  Claim C9, amended. When validation fails, and the prefix can be converted to a string
  for the message, the call returns \<^verbatim>\<open>undefined\<close> and no promise is ever settled. When
  validation passes and the request dispatch, \<^verbatim>\<open>fetchURLFunc\<close> and \<^verbatim>\<open>fetchOptionsFunc\<close>
  return normally, the call returns a promise. That promise is fulfilled, and not before,
  right after the failure notification has been dispatched (the transport or the body
  method rejected), right after the success notification has been dispatched (no
  \<^verbatim>\<open>deferredSuccess\<close>, \<^verbatim>\<open>parseResponse\<close> returned), or right after \<^verbatim>\<open>deferredSuccess\<close> has
  returned, in each case provided the dispatch returns normally.
\<close>

theorem returned_outcome:
  assumes provider:
      "perform (dispatchSuccessAction actionPrefix key dispatch) (pf ()) = (by_provider, Inr p)"
    and config: "destructure p = Inr b"
  shows
    "((typeof actionPrefix \<noteq> ''string'' \<or> typeof_callable (fetchURLFunc b) \<noteq> ''function'') \<and>
      ToString actionPrefix = Inr s \<longrightarrow>
        snd (Fetcher fetch actionPrefix (Fn pf) key dispatch) = Inr (Value Undefined) \<and>
        (\<forall>st. Settle st \<notin> set (fst (Fetcher fetch actionPrefix (Fn pf) key dispatch)))) \<and>
     (actionPrefix = String prefix \<and> fetchURLFunc b = Fn urlf \<and> fetchOptionsFunc b = Fn optf \<and>
      dispatch (Object [(''type'', String (prefix @ ''_REQUEST'')), (''key'', key)]) = Inr r \<and>
      perform (dispatchSuccessAction actionPrefix key dispatch) (urlf key) = (by_url, Inr url) \<and>
      perform (dispatchSuccessAction actionPrefix key dispatch) (optf key) = (by_options, Inr options) \<longrightarrow>
        (\<exists>st. snd (Fetcher fetch actionPrefix (Fn pf) key dispatch) = Inr (Promise st)) \<and>
        (fetch url options = Rejected e \<and>
         dispatch (Object [(''type'', String (prefix @ ''_FAILURE'')), (''key'', key),
                           (''error'', e)]) = Inr r' \<longrightarrow>
           (\<exists>before. Fetcher fetch actionPrefix (Fn pf) key dispatch =
              (before @
               [Dispatch (Object [(''type'', String (prefix @ ''_FAILURE'')), (''key'', key),
                                  (''error'', e)]),
                Settle (Fulfilled r')],
               Inr (Promise (Fulfilled r'))) \<and>
              (\<forall>st. Settle st \<notin> set before))) \<and>
        (fetch url options = Fulfilled response \<and>
         call_body_method response (responseType b) = ([CallBodyMethod m], Inr (Rejected e)) \<and>
         dispatch (Object [(''type'', String (prefix @ ''_FAILURE'')), (''key'', key),
                           (''error'', e)]) = Inr r' \<longrightarrow>
           (\<exists>before. Fetcher fetch actionPrefix (Fn pf) key dispatch =
              (before @
               [Dispatch (Object [(''type'', String (prefix @ ''_FAILURE'')), (''key'', key),
                                  (''error'', e)]),
                Settle (Fulfilled r')],
               Inr (Promise (Fulfilled r'))) \<and>
              (\<forall>st. Settle st \<notin> set before))) \<and>
        (fetch url options = Fulfilled response \<and>
         call_body_method response (responseType b) = ([CallBodyMethod m], Inr (Fulfilled v)) \<and>
         deferredSuccess b = Val Undefined \<and> parseResponse b = Fn parse \<and>
         perform (dispatchSuccessAction actionPrefix key dispatch) (parse v) = (by_value, Inr res) \<and>
         dispatch (Object [(''type'', String (prefix @ ''_SUCCESS'')), (''key'', key),
                           (''result'', res)]) = Inr r' \<longrightarrow>
           (\<exists>before. Fetcher fetch actionPrefix (Fn pf) key dispatch =
              (before @
               [Dispatch (Object [(''type'', String (prefix @ ''_SUCCESS'')), (''key'', key),
                                  (''result'', res)]),
                Settle (Fulfilled Undefined)],
               Inr (Promise (Fulfilled Undefined))) \<and>
              (\<forall>st. Settle st \<notin> set before))) \<and>
        (fetch url options = Fulfilled response \<and>
         call_body_method response (responseType b) = ([CallBodyMethod m], Inr (Fulfilled v)) \<and>
         deferredSuccess b = Fn ds \<and>
         perform (dispatchSuccessAction actionPrefix key dispatch) (ds v) = (by_value, Inr u) \<longrightarrow>
           (\<exists>before. Fetcher fetch actionPrefix (Fn pf) key dispatch =
              (before @ CallDeferredSuccess v # by_value @ [Settle (Fulfilled Undefined)],
               Inr (Promise (Fulfilled Undefined))) \<and>
              (\<forall>st. Settle st \<notin> set before))))"
proof (intro conjI impI)
  assume malformed:
    "(typeof actionPrefix \<noteq> ''string'' \<or> typeof_callable (fetchURLFunc b) \<noteq> ''function'') \<and>
      ToString actionPrefix = Inr s"
  have by_provider: "Settle st \<notin> set by_provider" for st
    using perform_not_settle [of st actionPrefix key dispatch "pf ()"]
    by (simp add: provider)
  from malformed have run: "\<exists>msg. Fetcher fetch actionPrefix (Fn pf) key dispatch =
      (CallParamsFunc # by_provider @ [ConsoleError msg], Inr (Value Undefined))"
    by (simp add: Fetcher_malformed [where pf = pf, OF provider config] error_message_def
        concat_left_def)
  then show "snd (Fetcher fetch actionPrefix (Fn pf) key dispatch) = Inr (Value Undefined)"
    by auto
  from run by_provider
  show "\<forall>st. Settle st \<notin> set (fst (Fetcher fetch actionPrefix (Fn pf) key dispatch))"
    by auto
next
  assume valid: "actionPrefix = String prefix \<and> fetchURLFunc b = Fn urlf \<and>
      fetchOptionsFunc b = Fn optf \<and>
      dispatch (Object [(''type'', String (prefix @ ''_REQUEST'')), (''key'', key)]) = Inr r \<and>
      perform (dispatchSuccessAction actionPrefix key dispatch) (urlf key) = (by_url, Inr url) \<and>
      perform (dispatchSuccessAction actionPrefix key dispatch) (optf key) = (by_options, Inr options)"
  let ?cap = "dispatchSuccessAction (String prefix) key dispatch"
  let ?before = "CallParamsFunc # by_provider @
      [Dispatch (Object [(''type'', String (prefix @ ''_REQUEST'')), (''key'', key)]),
       CallFetchURLFunc key] @ by_url @ [CallFetchOptionsFunc key] @ by_options @ [CallFetch url options]"
  let ?handlers = "then_promise (fetch url options)
      (onResponse (String prefix) key dispatch b) (onError (String prefix) key dispatch)"
  from valid provider have provider': "perform ?cap (pf ()) = (by_provider, Inr p)"
    by auto
  from valid have url_fn: "fetchURLFunc b = Fn urlf"
    and url: "perform ?cap (urlf key) = (by_url, Inr url)"
    and options: "perform ?cap (optf key) = (by_options, Inr options)"
    by auto
  have run: "Fetcher fetch actionPrefix (Fn pf) key dispatch =
      (?before @ fst ?handlers @ settlement (snd ?handlers), Inr (Promise (snd ?handlers)))"
    using valid
    by (simp add: Fetcher_valid [where pf = pf, OF provider' config url_fn] url options
        seq_def invoke_Fn_eq call_def returned_def split: prod.splits)
  have quiet: "Settle st \<notin> set ?before" for st
    using perform_not_settle [of st "String prefix" key dispatch "pf ()"]
      perform_not_settle [of st "String prefix" key dispatch "urlf key"]
      perform_not_settle [of st "String prefix" key dispatch "optf key"]
    by (simp add: provider' url options)
  from run show "\<exists>st. snd (Fetcher fetch actionPrefix (Fn pf) key dispatch) = Inr (Promise st)"
    by simp
  {
    assume "fetch url options = Rejected e \<and>
      dispatch (Object [(''type'', String (prefix @ ''_FAILURE'')), (''key'', key),
                        (''error'', e)]) = Inr r'"
    then have "Fetcher fetch actionPrefix (Fn pf) key dispatch =
        (?before @
         [Dispatch (Object [(''type'', String (prefix @ ''_FAILURE'')), (''key'', key),
                            (''error'', e)]),
          Settle (Fulfilled r')],
         Inr (Promise (Fulfilled r')))"
      by (simp add: run then_promise_def settle_def onError_String)
    with quiet
    show "\<exists>before. Fetcher fetch actionPrefix (Fn pf) key dispatch =
        (before @
         [Dispatch (Object [(''type'', String (prefix @ ''_FAILURE'')), (''key'', key),
                            (''error'', e)]),
          Settle (Fulfilled r')],
         Inr (Promise (Fulfilled r'))) \<and>
        (\<forall>st. Settle st \<notin> set before)"
      by blast
  }
  {
    assume "fetch url options = Fulfilled response \<and>
      call_body_method response (responseType b) = ([CallBodyMethod m], Inr (Rejected e)) \<and>
      dispatch (Object [(''type'', String (prefix @ ''_FAILURE'')), (''key'', key),
                        (''error'', e)]) = Inr r'"
    then have "Fetcher fetch actionPrefix (Fn pf) key dispatch =
        ((?before @ [CallBodyMethod m]) @
         [Dispatch (Object [(''type'', String (prefix @ ''_FAILURE'')), (''key'', key),
                            (''error'', e)]),
          Settle (Fulfilled r')],
         Inr (Promise (Fulfilled r')))"
      by (simp add: run then_promise_def settle_def onResponse_def seq_def promise_def
          onError_String)
    moreover from quiet have "\<forall>st. Settle st \<notin> set (?before @ [CallBodyMethod m])"
      by simp
    ultimately
    show "\<exists>before. Fetcher fetch actionPrefix (Fn pf) key dispatch =
        (before @
         [Dispatch (Object [(''type'', String (prefix @ ''_FAILURE'')), (''key'', key),
                            (''error'', e)]),
          Settle (Fulfilled r')],
         Inr (Promise (Fulfilled r'))) \<and>
        (\<forall>st. Settle st \<notin> set before)"
      by blast
  }
  {
    assume success: "fetch url options = Fulfilled response \<and>
      call_body_method response (responseType b) = ([CallBodyMethod m], Inr (Fulfilled v)) \<and>
      deferredSuccess b = Val Undefined \<and> parseResponse b = Fn parse \<and>
      perform (dispatchSuccessAction actionPrefix key dispatch) (parse v) = (by_value, Inr res) \<and>
      dispatch (Object [(''type'', String (prefix @ ''_SUCCESS'')), (''key'', key),
                        (''result'', res)]) = Inr r'"
    with valid have parse: "perform ?cap (parse v) = (by_value, Inr res)"
      by auto
    from success have "Fetcher fetch actionPrefix (Fn pf) key dispatch =
        ((?before @ [CallBodyMethod m, CallParseResponse v] @ by_value) @
         [Dispatch (Object [(''type'', String (prefix @ ''_SUCCESS'')), (''key'', key),
                            (''result'', res)]),
          Settle (Fulfilled Undefined)],
         Inr (Promise (Fulfilled Undefined)))"
      by (simp add: run parse then_promise_def settle_def onResponse_def seq_def promise_def
          onValue_def invoke_Fn_eq call_def ret_def dispatchSuccessAction_String)
    moreover from quiet perform_not_settle [of _ "String prefix" key dispatch "parse v"]
    have "\<forall>st. Settle st \<notin> set (?before @ [CallBodyMethod m, CallParseResponse v] @ by_value)"
      by (simp add: parse)
    ultimately
    show "\<exists>before. Fetcher fetch actionPrefix (Fn pf) key dispatch =
        (before @
         [Dispatch (Object [(''type'', String (prefix @ ''_SUCCESS'')), (''key'', key),
                            (''result'', res)]),
          Settle (Fulfilled Undefined)],
         Inr (Promise (Fulfilled Undefined))) \<and>
        (\<forall>st. Settle st \<notin> set before)"
      by blast
  }
  {
    assume deferred: "fetch url options = Fulfilled response \<and>
      call_body_method response (responseType b) = ([CallBodyMethod m], Inr (Fulfilled v)) \<and>
      deferredSuccess b = Fn ds \<and>
      perform (dispatchSuccessAction actionPrefix key dispatch) (ds v) = (by_value, Inr u)"
    with valid have ds: "perform ?cap (ds v) = (by_value, Inr u)"
      by auto
    from deferred have "Fetcher fetch actionPrefix (Fn pf) key dispatch =
        ((?before @ [CallBodyMethod m]) @ CallDeferredSuccess v # by_value @
           [Settle (Fulfilled Undefined)],
         Inr (Promise (Fulfilled Undefined)))"
      by (simp add: run ds then_promise_def settle_def onResponse_def seq_def promise_def
          onValue_def invoke_Fn_eq call_def ret_def)
    moreover from quiet have "\<forall>st. Settle st \<notin> set (?before @ [CallBodyMethod m])"
      by simp
    ultimately
    show "\<exists>before. Fetcher fetch actionPrefix (Fn pf) key dispatch =
        (before @ CallDeferredSuccess v # by_value @ [Settle (Fulfilled Undefined)],
         Inr (Promise (Fulfilled Undefined))) \<and>
        (\<forall>st. Settle st \<notin> set before)"
      by blast
  }
qed

text \<open>
  The README example with the number 42 as prefix, and the scenario of the specification.
\<close>

theorem returned_outcome_witness:
  "snd (Fetcher friends_transport (Number ''42'') (Fn fetchFriends_params) (String ''alice'')
      store_dispatch) = Inr (Value Undefined) \<and>
   (\<exists>before. Fetcher friends_transport (String ''FETCH_FRIENDS'') (Fn fetchFriends_params)
      (String ''alice'') store_dispatch =
      (before @
       [Dispatch (Object [(''type'', String ''FETCH_FRIENDS_SUCCESS''), (''key'', String ''alice''),
                          (''result'', Array [String ''bob'', String ''carol''])]),
        Settle (Fulfilled Undefined)],
       Inr (Promise (Fulfilled Undefined))) \<and>
      (\<forall>st. Settle st \<notin> set before))"
proof -
  let ?cap0 = "dispatchSuccessAction (Number ''42'') (String ''alice'') store_dispatch"
  from fetchFriends_bindings [of ?cap0] obtain p0 b0 where
    p0: "perform ?cap0 (fetchFriends_params ()) = ([], Inr p0)"
    and b0: "destructure p0 = Inr b0"
    by blast
  have malformed: "(typeof (Number ''42'') \<noteq> ''string'' \<or>
      typeof_callable (fetchURLFunc b0) \<noteq> ''function'') \<and> ToString (Number ''42'') = Inr ''42''"
    by simp
  note undefined_returned = returned_outcome [where pf = fetchFriends_params
      and fetch = friends_transport and s = "''42''", OF p0 b0,
      THEN conjunct1, THEN mp, OF malformed, THEN conjunct1]
  let ?cap = "dispatchSuccessAction (String ''FETCH_FRIENDS'') (String ''alice'') store_dispatch"
  let ?body = "Array [String ''bob'', String ''carol'']"
  let ?success = "Object [(''type'', String (''FETCH_FRIENDS'' @ ''_SUCCESS'')),
      (''key'', String ''alice''), (''result'', ?body)]"
  from fetchFriends_bindings [of ?cap] obtain p b urlf optf parse where
    p: "perform ?cap (fetchFriends_params ()) = ([], Inr p)"
    and b: "destructure p = Inr b"
    and urlf: "fetchURLFunc b = Fn urlf"
      "perform ?cap (urlf (String ''alice'')) = ([], Inr (String ''/api/alice/friends/''))"
    and optf: "fetchOptionsFunc b = Fn optf"
      "perform ?cap (optf (String ''alice'')) = ([], Inr (Object [(''method'', String ''GET'')]))"
    and rt: "responseType b = Val (String ''json'')"
    and parse: "parseResponse b = Fn parse" "perform ?cap (parse ?body) = ([], Inr ?body)"
    and ds: "deferredSuccess b = Val Undefined"
    by blast
  have valid: "String ''FETCH_FRIENDS'' = String ''FETCH_FRIENDS'' \<and>
      fetchURLFunc b = Fn urlf \<and> fetchOptionsFunc b = Fn optf \<and>
      store_dispatch (Object [(''type'', String (''FETCH_FRIENDS'' @ ''_REQUEST'')),
        (''key'', String ''alice'')]) =
        Inr (Object [(''type'', String (''FETCH_FRIENDS'' @ ''_REQUEST'')),
          (''key'', String ''alice'')]) \<and>
      perform ?cap (urlf (String ''alice'')) = ([], Inr (String ''/api/alice/friends/'')) \<and>
      perform ?cap (optf (String ''alice'')) = ([], Inr (Object [(''method'', String ''GET'')]))"
    by (intro conjI refl urlf optf store_dispatch_request)
  have success: "friends_transport (String ''/api/alice/friends/'')
        (Object [(''method'', String ''GET'')]) = Fulfilled (\<lambda>m. Fulfilled ?body) \<and>
      call_body_method (\<lambda>m. Fulfilled ?body) (responseType b) =
        ([CallBodyMethod Json], Inr (Fulfilled ?body)) \<and>
      deferredSuccess b = Val Undefined \<and> parseResponse b = Fn parse \<and>
      perform ?cap (parse ?body) = ([], Inr ?body) \<and>
      store_dispatch ?success = Inr ?success"
    by (simp add: friends_transport_def rt call_body_method_json ds parse store_dispatch_def)
  note fulfilled = returned_outcome [where pf = fetchFriends_params
      and fetch = friends_transport and dispatch = store_dispatch and key = "String ''alice''"
      and actionPrefix = "String ''FETCH_FRIENDS''" and prefix = "''FETCH_FRIENDS''"
      and urlf = urlf and optf = optf and url = "String ''/api/alice/friends/''"
      and options = "Object [(''method'', String ''GET'')]" and by_url = "[]" and by_options = "[]"
      and r = "Object [(''type'', String (''FETCH_FRIENDS'' @ ''_REQUEST'')),
          (''key'', String ''alice'')]"
      and response = "\<lambda>m. Fulfilled ?body" and m = Json and v = ?body and parse = parse
      and by_value = "[]" and res = ?body and r' = ?success,
      OF p b, THEN conjunct2, THEN mp, OF valid,
      THEN conjunct2, THEN conjunct2, THEN conjunct2, THEN conjunct1, THEN mp, OF success]
  from undefined_returned fulfilled show ?thesis
    by simp
qed

section \<open>An unrecognised response type\<close>

text \<open>
  Claim C10. A \<^verbatim>\<open>responseType\<close> string that names none of the five body methods passes
  validation: the request notification is dispatched and \<^verbatim>\<open>fetch\<close> is called. When the
  response arrives, calling the missing method throws inside the handler: the invocation
  dispatches and logs nothing more, and the returned promise is rejected with the
  TypeError. (\<open>by_provider\<close>, \<open>by_url\<close> and \<open>by_options\<close> are what the functions of the
  caller did through the capability while they ran: success actions, if anything.)
\<close>

theorem unrecognised_responseType:
  assumes provider:
      "perform (dispatchSuccessAction (String prefix) key dispatch) (pf ()) = (by_provider, Inr p)"
    and config: "destructure p = Inr b"
    and url_fn: "fetchURLFunc b = Fn urlf"
    and options_fn: "fetchOptionsFunc b = Fn optf"
    and response_type: "responseType b = Val (String rt)"
    and unrecognised: "rt \<notin> {''arrayBuffer'', ''blob'', ''formData'', ''json'', ''text''}"
    and request_dispatched:
      "dispatch (Object [(''type'', String (prefix @ ''_REQUEST'')), (''key'', key)]) = Inr r"
    and url:
      "perform (dispatchSuccessAction (String prefix) key dispatch) (urlf key) = (by_url, Inr url)"
    and options:
      "perform (dispatchSuccessAction (String prefix) key dispatch) (optf key) = (by_options, Inr options)"
    and network_success: "fetch url options = Fulfilled response"
  shows "Fetcher fetch (String prefix) (Fn pf) key dispatch =
      (CallParamsFunc # by_provider @
       [Dispatch (Object [(''type'', String (prefix @ ''_REQUEST'')), (''key'', key)]),
        CallFetchURLFunc key] @ by_url @
       [CallFetchOptionsFunc key] @ by_options @
       [CallFetch url options,
        Settle (Rejected (TypeError ''response[responseType] is not a function''))],
       Inr (Promise (Rejected (TypeError ''response[responseType] is not a function''))))"
proof -
  from unrecognised have "method_named rt = None"
    by (simp add: method_named_def)
  then have "call_body_method response (responseType b) =
      ([], Inl (TypeError ''response[responseType] is not a function''))"
    by (simp add: call_body_method_def response_type seq_def lift_def)
  then show ?thesis
    by (simp add: Fetcher_valid [where pf = pf, OF provider config url_fn]
        options_fn request_dispatched url options network_success
        seq_def invoke_Fn_eq call_def onResponse_def returned_def then_promise_def settle_def)
qed

text \<open>
  A configuration asking for \<^verbatim>\<open>xml\<close>.
\<close>

theorem unrecognised_responseType_witness:
  "Fetcher friends_transport (String ''FETCH_FEED'') (Fn fetchXml_params) (Number ''7'')
      store_dispatch =
      ([CallParamsFunc,
        Dispatch (Object [(''type'', String ''FETCH_FEED_REQUEST''), (''key'', Number ''7'')]),
        CallFetchURLFunc (Number ''7''), CallFetchOptionsFunc (Number ''7''),
        CallFetch (String ''/api/feed'') (Object [(''method'', String ''GET'')]),
        Settle (Rejected (TypeError ''response[responseType] is not a function''))],
       Inr (Promise (Rejected (TypeError ''response[responseType] is not a function''))))"
proof -
  let ?cap = "dispatchSuccessAction (String ''FETCH_FEED'') (Number ''7'') store_dispatch"
  from fetchXml_bindings [of ?cap] obtain p b urlf optf where
    p: "perform ?cap (fetchXml_params ()) = ([], Inr p)"
    and b: "destructure p = Inr b"
    and urlf: "fetchURLFunc b = Fn urlf"
      "perform ?cap (urlf (Number ''7'')) = ([], Inr (String ''/api/feed''))"
    and optf: "fetchOptionsFunc b = Fn optf"
      "perform ?cap (optf (Number ''7'')) = ([], Inr (Object [(''method'', String ''GET'')]))"
    and rt: "responseType b = Val (String ''xml'')"
    by blast
  have u: "''xml'' \<notin> {''arrayBuffer'', ''blob'', ''formData'', ''json'', ''text''}"
    by simp
  have f: "friends_transport (String ''/api/feed'') (Object [(''method'', String ''GET'')]) =
      Fulfilled (\<lambda>m. Fulfilled (Array [String ''bob'', String ''carol'']))"
    by (simp add: friends_transport_def)
  from unrecognised_responseType [where pf = fetchXml_params and urlf = urlf and optf = optf
      and fetch = friends_transport and dispatch = store_dispatch
      and key = "Number ''7''", OF p b urlf(1) optf(1) rt u store_dispatch_request
      urlf(2) optf(2) f]
  show ?thesis by simp
qed

end
